theory Spec2Isabelle
  imports Main
begin

section \<open>The Pip-Boy server: data model\<close>

text \<open>
  The server (\<^verbatim>\<open>src/pipboy-server.js\<close>) keeps five SQLite tables and a set of WebSocket
  clients. Every table has a \<^verbatim>\<open>UNIQUE\<close> column (or column pair), so a table is modelled as
  a map from that key to the remaining columns:
  \<^item> \<^verbatim>\<open>users\<close>: \<^verbatim>\<open>username\<close> to (\<^verbatim>\<open>id\<close>, \<^verbatim>\<open>password_hash\<close>, \<^verbatim>\<open>is_admin\<close>);
  \<^item> \<^verbatim>\<open>items\<close>: \<^verbatim>\<open>item_key\<close> to (\<^verbatim>\<open>id\<close>, \<^verbatim>\<open>name\<close>, \<^verbatim>\<open>description\<close>, \<^verbatim>\<open>image_url\<close>);
  \<^item> \<^verbatim>\<open>user_inventory\<close>: (\<^verbatim>\<open>user_id\<close>, \<^verbatim>\<open>item_key\<close>) to \<^verbatim>\<open>quantity\<close>;
  \<^item> \<^verbatim>\<open>party_storage\<close>: \<^verbatim>\<open>item_key\<close> to \<^verbatim>\<open>quantity\<close>;
  \<^item> \<^verbatim>\<open>quests\<close>: \<^verbatim>\<open>quest_key\<close> to (\<^verbatim>\<open>id\<close>, \<^verbatim>\<open>name\<close>, \<^verbatim>\<open>description\<close>, \<^verbatim>\<open>image_url\<close>,
    \<^verbatim>\<open>is_active\<close>).

  The \<^verbatim>\<open>AUTOINCREMENT\<close> ids of users, items and quests are returned to the caller
  (\<^verbatim>\<open>this.lastID\<close>), so each of these tables carries its sequence counter. The \<^verbatim>\<open>id\<close> column of
  \<^verbatim>\<open>user_inventory\<close> and \<^verbatim>\<open>party_storage\<close> and the \<^verbatim>\<open>created_at\<close> timestamps are never read by
  a mutating handler and are left out. Quantities are SQL integers, modelled as unbounded
  \<^typ>\<open>int\<close>; the request's \<^verbatim>\<open>quantity\<close> is an integer or is omitted. A handler runs its
  statements in the order it issues them, one request at a time.
\<close>

record user_row =
  user_id :: nat
  password_hash :: string
  is_admin :: bool

record item_row =
  item_id :: nat
  item_name :: string
  item_description :: string
  item_image_url :: string

record quest_row =
  quest_id :: nat
  quest_name :: string
  quest_description :: string
  quest_image_url :: string
  quest_is_active :: bool

record database =
  users :: "string \<rightharpoonup> user_row"
  users_seq :: nat
  items :: "string \<rightharpoonup> item_row"
  items_seq :: nat
  user_inventory :: "nat \<times> string \<rightharpoonup> int"
  party_storage :: "string \<rightharpoonup> int"
  quests :: "string \<rightharpoonup> quest_row"
  quests_seq :: nat

text \<open>
  The payload that \<^verbatim>\<open>jwt.sign\<close> puts into a token and \<^verbatim>\<open>jwt.verify\<close> gives back. A request
  carries no token, a token that \<^verbatim>\<open>jwt.verify\<close> refuses (bad signature, expired), or a token
  that verifies to a payload.
\<close>

record jwt_payload =
  userId :: nat
  username :: string
  isAdmin :: bool

datatype credential = NoToken | InvalidToken | ValidToken jwt_payload

text \<open>The objects handed to \<^verbatim>\<open>broadcast\<close>; \<open>event_type\<close> is their \<^verbatim>\<open>type\<close> field.\<close>

datatype event =
    ITEM_ADDED nat string string string string
  | ITEM_DELETED string
  | QUEST_ADDED nat string string string string bool
  | QUEST_DELETED string
  | PARTY_STORAGE_UPDATED

fun event_type :: "event \<Rightarrow> string" where
  "event_type (ITEM_ADDED i k n d u) = ''ITEM_ADDED''"
| "event_type (ITEM_DELETED k) = ''ITEM_DELETED''"
| "event_type (QUEST_ADDED i k n d u a) = ''QUEST_ADDED''"
| "event_type (QUEST_DELETED k) = ''QUEST_DELETED''"
| "event_type PARTY_STORAGE_UPDATED = ''PARTY_STORAGE_UPDATED''"

text \<open>
  The JSON bodies of the responses: \<^verbatim>\<open>{error: ...}\<close>, \<^verbatim>\<open>{message: ...}\<close>, the new item, the
  new quest, and the login answer \<^verbatim>\<open>{token, user: {id, username, isAdmin}}\<close>.
\<close>

datatype json_body =
    ErrorBody string
  | MessageBody string
  | ItemBody nat string string string string
  | QuestBody nat string string string string bool
  | LoginBody jwt_payload nat string bool

text \<open>
  What one request does: the database afterwards, the HTTP status and body of the
  response, and the events passed to \<^verbatim>\<open>broadcast\<close>, in order.
\<close>

record outcome =
  store :: database
  status :: nat
  body :: json_body
  sent :: "event list"

definition respond :: "database \<Rightarrow> nat \<Rightarrow> json_body \<Rightarrow> event list \<Rightarrow> outcome" where
  "respond db st b evs = \<lparr>store = db, status = st, body = b, sent = evs\<rparr>"

section \<open>Key derivation\<close>

text \<open>
  \<^verbatim>\<open>name.toLowerCase().replace(/\s+/g, '-')\<close>. A \<^typ>\<open>char\<close> stands for a UTF-16 code unit
  below 256: \<^verbatim>\<open>toLowerCase\<close> maps A-Z and the Latin-1 capitals (U+00C0 to U+00DE except the
  multiplication sign U+00D7) 32 places up, and \<^verbatim>\<open>\s\<close> matches U+0009 to U+000D, the space
  and the no-break space U+00A0. Names with code units from 256 on are outside the model.
\<close>

definition toLowerCase_char :: "char \<Rightarrow> char" where
  "toLowerCase_char c =
     (let n = (of_char c :: nat)
      in if (65 \<le> n \<and> n \<le> 90) \<or> (192 \<le> n \<and> n \<le> 222 \<and> n \<noteq> 215)
         then char_of (n + 32) else c)"

definition toLowerCase :: "string \<Rightarrow> string" where
  "toLowerCase s = map toLowerCase_char s"

definition is_whitespace :: "char \<Rightarrow> bool" where
  "is_whitespace c =
     (let n = (of_char c :: nat) in (9 \<le> n \<and> n \<le> 13) \<or> n = 32 \<or> n = 160)"

function replace_whitespace :: "string \<Rightarrow> string" where
  "replace_whitespace [] = []"
| "replace_whitespace (c # cs) =
     (if is_whitespace c then CHR ''-'' # replace_whitespace (dropWhile is_whitespace cs)
      else c # replace_whitespace cs)"
  by pat_completeness auto
termination
  by (relation "measure length") (auto simp: length_dropWhile_le less_Suc_eq_le)

definition derive_key :: "string \<Rightarrow> string" where
  "derive_key name = replace_whitespace (toLowerCase name)"

text \<open>\<^verbatim>\<open>field || d\<close> on an optional string field: absent and empty are falsy.\<close>

fun or_default :: "string option \<Rightarrow> string \<Rightarrow> string" where
  "or_default None d = d"
| "or_default (Some s) d = (if s = [] then d else s)"

text \<open>\<^verbatim>\<open>const { quantity = 1 } = req.body\<close>: the default applies when the field is absent.\<close>

fun default_quantity :: "int option \<Rightarrow> int" where
  "default_quantity None = 1"
| "default_quantity (Some q) = q"

section \<open>SQL statements\<close>

text \<open>
  An \<^verbatim>\<open>INSERT\<close> into a table with a \<^verbatim>\<open>UNIQUE\<close> key fails with \<^verbatim>\<open>SQLITE_CONSTRAINT\<close> when the
  key is taken. Other database errors (I/O) do not arise in the model; the handlers keep
  their branch for them.
\<close>

datatype sql_error = SQLITE_CONSTRAINT | SQLITE_OTHER

definition insert_user ::
  "database \<Rightarrow> string \<Rightarrow> string \<Rightarrow> bool \<Rightarrow> sql_error + database \<times> nat" where
  "insert_user db name hashed admin =
     (case users db name of
        Some _ \<Rightarrow> Inl SQLITE_CONSTRAINT
      | None \<Rightarrow>
          (let lastID = Suc (users_seq db)
           in Inr (db\<lparr>users := (users db)(name \<mapsto>
                         \<lparr>user_id = lastID, password_hash = hashed, is_admin = admin\<rparr>),
                       users_seq := lastID\<rparr>, lastID)))"

definition insert_item ::
  "database \<Rightarrow> string \<Rightarrow> string \<Rightarrow> string \<Rightarrow> string \<Rightarrow> sql_error + database \<times> nat" where
  "insert_item db itemKey name description image_url =
     (case items db itemKey of
        Some _ \<Rightarrow> Inl SQLITE_CONSTRAINT
      | None \<Rightarrow>
          (let lastID = Suc (items_seq db)
           in Inr (db\<lparr>items := (items db)(itemKey \<mapsto>
                         \<lparr>item_id = lastID, item_name = name,
                          item_description = description, item_image_url = image_url\<rparr>),
                       items_seq := lastID\<rparr>, lastID)))"

definition insert_quest ::
  "database \<Rightarrow> string \<Rightarrow> string \<Rightarrow> string \<Rightarrow> string \<Rightarrow> sql_error + database \<times> nat" where
  "insert_quest db questKey name description image_url =
     (case quests db questKey of
        Some _ \<Rightarrow> Inl SQLITE_CONSTRAINT
      | None \<Rightarrow>
          (let lastID = Suc (quests_seq db)
           in Inr (db\<lparr>quests := (quests db)(questKey \<mapsto>
                         \<lparr>quest_id = lastID, quest_name = name,
                          quest_description = description, quest_image_url = image_url,
                          quest_is_active = True\<rparr>),
                       quests_seq := lastID\<rparr>, lastID)))"

text \<open>\<^verbatim>\<open>DELETE FROM t WHERE key = ?\<close>; the second component is \<^verbatim>\<open>this.changes\<close>.\<close>

definition delete_row :: "('k \<rightharpoonup> 'v) \<Rightarrow> 'k \<Rightarrow> ('k \<rightharpoonup> 'v) \<times> nat" where
  "delete_row t k = (t(k := None), (case t k of None \<Rightarrow> 0 | Some _ \<Rightarrow> 1))"

text \<open>\<^verbatim>\<open>DELETE FROM user_inventory WHERE item_key = ?\<close>: the lines of every user.\<close>

definition delete_inventory_of_item ::
  "(nat \<times> string \<rightharpoonup> int) \<Rightarrow> string \<Rightarrow> (nat \<times> string \<rightharpoonup> int)" where
  "delete_inventory_of_item t itemKey = (\<lambda>(u, k). if k = itemKey then None else t (u, k))"

text \<open>
  \<^verbatim>\<open>INSERT INTO t (key, quantity) VALUES (?, ?) ON CONFLICT(key) DO UPDATE SET
  quantity = quantity + ?\<close>, the statement of both add routes.
\<close>

definition upsert_quantity :: "('k \<rightharpoonup> int) \<Rightarrow> 'k \<Rightarrow> int \<Rightarrow> ('k \<rightharpoonup> int)" where
  "upsert_quantity t k q = (case t k of None \<Rightarrow> t(k \<mapsto> q) | Some n \<Rightarrow> t(k \<mapsto> n + q))"

text \<open>
  \<^verbatim>\<open>UPDATE t SET quantity = quantity - ? WHERE key = ? AND quantity > ?\<close>, the statement of
  both remove routes, with \<^verbatim>\<open>this.changes\<close>.
\<close>

definition decrement_quantity :: "('k \<rightharpoonup> int) \<Rightarrow> 'k \<Rightarrow> int \<Rightarrow> ('k \<rightharpoonup> int) \<times> nat" where
  "decrement_quantity t k q =
     (case t k of
        None \<Rightarrow> (t, 0)
      | Some n \<Rightarrow> if n > q then (t(k \<mapsto> n - q), 1) else (t, 0))"

text \<open>\<^verbatim>\<open>DELETE FROM t WHERE key = ? AND quantity <= 0\<close>, the follow-up of both remove routes.\<close>

definition delete_nonpositive :: "('k \<rightharpoonup> int) \<Rightarrow> 'k \<Rightarrow> ('k \<rightharpoonup> int)" where
  "delete_nonpositive t k =
     (case t k of None \<Rightarrow> t | Some n \<Rightarrow> if n \<le> 0 then t(k := None) else t)"

section \<open>Start-up\<close>

text \<open>
  The \<^verbatim>\<open>db.serialize\<close> block on a fresh database file: the admin account \<^verbatim>\<open>gm\<close>, five items
  and one quest, each by \<^verbatim>\<open>INSERT OR IGNORE\<close>. \<open>hashSync\<close> stands for \<^verbatim>\<open>bcrypt.hashSync\<close>.
\<close>

definition empty_database :: database where
  "empty_database =
     \<lparr>users = Map.empty, users_seq = 0, items = Map.empty, items_seq = 0,
      user_inventory = Map.empty, party_storage = Map.empty,
      quests = Map.empty, quests_seq = 0\<rparr>"

fun or_ignore :: "database \<Rightarrow> sql_error + database \<times> nat \<Rightarrow> database" where
  "or_ignore db (Inl _) = db"
| "or_ignore db (Inr (db', _)) = db'"

definition defaultItems :: "(string \<times> string \<times> string \<times> string) list" where
  "defaultItems =
     [(''stimpak'', ''Stimpak'',
       ''A medical item used to heal wounds and restore health points.'',
       ''/api/placeholder/200/150''),
      (''radaway'', ''RadAway'', ''Reduces radiation levels in the body.'',
       ''/api/placeholder/200/150''),
      (''nuka-cola'', ''Nuka-Cola'',
       ''The famous pre-war soft drink. Restores some health and provides a small boost.'',
       ''/api/placeholder/200/150''),
      (''10mm-pistol'', ''10mm Pistol'',
       ''A reliable sidearm commonly found throughout the wasteland.'',
       ''/api/placeholder/200/150''),
      (''leather-armor'', ''Leather Armor'',
       ''Basic protection made from tanned hide. Better than nothing.'',
       ''/api/placeholder/200/150'')]"

definition initial_database :: "(string \<Rightarrow> string) \<Rightarrow> database" where
  "initial_database hashSync =
     (let db1 = or_ignore empty_database
                  (insert_user empty_database ''gm'' (hashSync ''admin'') True);
          db2 = fold (\<lambda>(k, n, d, i) db. or_ignore db (insert_item db k n d i))
                  defaultItems db1
      in or_ignore db2
           (insert_quest db2 ''find-the-vault'' ''Find the Lost Vault''
              ''Rumors speak of a hidden vault containing pre-war technology. Search the wasteland for clues to its location. The vault is said to be marked by a distinctive blue door with the number 111.''
              ''/api/placeholder/400/200''))"

section \<open>Middleware\<close>

fun authenticateToken :: "credential \<Rightarrow> nat \<times> json_body + jwt_payload" where
  "authenticateToken NoToken = Inl (401, ErrorBody ''Access token required'')"
| "authenticateToken InvalidToken = Inl (403, ErrorBody ''Invalid token'')"
| "authenticateToken (ValidToken user) = Inr user"

definition requireAdmin :: "jwt_payload \<Rightarrow> (nat \<times> json_body) option" where
  "requireAdmin user =
     (if \<not> isAdmin user then Some (403, ErrorBody ''Admin privileges required'') else None)"

text \<open>The two middleware chains in front of the route handlers.\<close>

definition authenticated ::
  "database \<Rightarrow> credential \<Rightarrow> (jwt_payload \<Rightarrow> outcome) \<Rightarrow> outcome" where
  "authenticated db cred handler =
     (case authenticateToken cred of
        Inl (st, b) \<Rightarrow> respond db st b []
      | Inr user \<Rightarrow> handler user)"

definition admin_only ::
  "database \<Rightarrow> credential \<Rightarrow> (jwt_payload \<Rightarrow> outcome) \<Rightarrow> outcome" where
  "admin_only db cred handler =
     authenticated db cred (\<lambda>user.
       case requireAdmin user of
         Some (st, b) \<Rightarrow> respond db st b []
       | None \<Rightarrow> handler user)"


section \<open>Route handlers\<close>

text \<open>
  \<^verbatim>\<open>POST /api/auth/login\<close>. \<open>hash\<close> and \<open>compare\<close> stand for \<^verbatim>\<open>bcrypt.hash\<close> and
  \<^verbatim>\<open>bcrypt.compare\<close>; nothing is assumed about them. The \<^verbatim>\<open>INSERT\<close> names only
  \<^verbatim>\<open>username\<close> and \<^verbatim>\<open>password_hash\<close>, so \<^verbatim>\<open>is_admin\<close> takes its column default
  \<^verbatim>\<open>FALSE\<close>.
\<close>

definition post_auth_login ::
  "(string \<Rightarrow> string) \<Rightarrow> (string \<Rightarrow> string \<Rightarrow> bool) \<Rightarrow>
   database \<Rightarrow> string option \<Rightarrow> string option \<Rightarrow> outcome" where
  "post_auth_login hash compare db name_field password_field =
     (case (name_field, password_field) of
        (Some name, Some password) \<Rightarrow>
          if name = [] \<or> password = []
          then respond db 400 (ErrorBody ''Username and password required'') []
          else
            (case users db name of
               None \<Rightarrow>
                 (case insert_user db name (hash password) False of
                    Inl err \<Rightarrow> respond db 500 (ErrorBody ''Failed to create user'') []
                  | Inr (db', lastID) \<Rightarrow>
                      respond db' 200
                        (LoginBody \<lparr>userId = lastID, username = name, isAdmin = False\<rparr>
                           lastID name False) [])
             | Some user \<Rightarrow>
                 if \<not> compare password (password_hash user)
                 then respond db 401 (ErrorBody ''Invalid password'') []
                 else respond db 200
                        (LoginBody \<lparr>userId = user_id user, username = name,
                                    isAdmin = is_admin user\<rparr>
                           (user_id user) name (is_admin user)) [])
      | _ \<Rightarrow> respond db 400 (ErrorBody ''Username and password required'') [])"

text \<open>\<^verbatim>\<open>POST /api/items\<close> (admin only).\<close>

definition post_items ::
  "database \<Rightarrow> credential \<Rightarrow> string option \<Rightarrow> string option \<Rightarrow> string option \<Rightarrow> outcome" where
  "post_items db cred name_field description_field imageUrl =
     admin_only db cred (\<lambda>user.
       case (name_field, description_field) of
         (Some name, Some description) \<Rightarrow>
           if name = [] \<or> description = []
           then respond db 400 (ErrorBody ''Name and description required'') []
           else
             (let itemKey = derive_key name;
                  image_url = or_default imageUrl ''/api/placeholder/200/150''
              in case insert_item db itemKey name description image_url of
                   Inl err \<Rightarrow>
                     if err = SQLITE_CONSTRAINT
                     then respond db 400 (ErrorBody ''Item already exists'') []
                     else respond db 500 (ErrorBody ''Database error'') []
                 | Inr (db', lastID) \<Rightarrow>
                     respond db' 200 (ItemBody lastID itemKey name description image_url)
                       [ITEM_ADDED lastID itemKey name description image_url])
       | _ \<Rightarrow> respond db 400 (ErrorBody ''Name and description required'') [])"

text \<open>\<^verbatim>\<open>DELETE /api/items/:itemKey\<close> (admin only).\<close>

definition delete_items :: "database \<Rightarrow> credential \<Rightarrow> string \<Rightarrow> outcome" where
  "delete_items db cred itemKey =
     admin_only db cred (\<lambda>user.
       let (items', changes) = delete_row (items db) itemKey;
           db1 = db\<lparr>items := items'\<rparr>
       in if changes = 0 then respond db1 404 (ErrorBody ''Item not found'') []
          else
            (let db2 = db1\<lparr>user_inventory :=
                              delete_inventory_of_item (user_inventory db1) itemKey\<rparr>;
                 db3 = db2\<lparr>party_storage := fst (delete_row (party_storage db2) itemKey)\<rparr>
             in respond db3 200 (MessageBody ''Item deleted successfully'')
                  [ITEM_DELETED itemKey]))"

text \<open>\<^verbatim>\<open>POST /api/inventory\<close>: the spec's \<open>addToInventory\<close>.\<close>

definition post_inventory ::
  "database \<Rightarrow> credential \<Rightarrow> string option \<Rightarrow> int option \<Rightarrow> outcome" where
  "post_inventory db cred itemKey_field quantity_field =
     authenticated db cred (\<lambda>user.
       let quantity = default_quantity quantity_field
       in case itemKey_field of
            None \<Rightarrow> respond db 400 (ErrorBody ''Item key required'') []
          | Some itemKey \<Rightarrow>
              if itemKey = [] then respond db 400 (ErrorBody ''Item key required'') []
              else respond
                     (db\<lparr>user_inventory :=
                           upsert_quantity (user_inventory db) (userId user, itemKey) quantity\<rparr>)
                     200 (MessageBody ''Item added to inventory'') [])"

text \<open>
  \<^verbatim>\<open>DELETE /api/inventory/:itemKey\<close>: the spec's \<open>removeFromInventory\<close>. The response is
  the same whether or not the \<^verbatim>\<open>UPDATE\<close> changed a row.
\<close>

definition delete_inventory ::
  "database \<Rightarrow> credential \<Rightarrow> string \<Rightarrow> int option \<Rightarrow> outcome" where
  "delete_inventory db cred itemKey quantity_field =
     authenticated db cred (\<lambda>user.
       let quantity = default_quantity quantity_field;
           (inv1, changes) =
             decrement_quantity (user_inventory db) (userId user, itemKey) quantity;
           inv2 = (if changes > 0 then delete_nonpositive inv1 (userId user, itemKey)
                   else inv1)
       in respond (db\<lparr>user_inventory := inv2\<rparr>) 200
            (MessageBody ''Item removed from inventory'') [])"

text \<open>
  The repository holds a later revision of this route (the server source appended to
  \<^verbatim>\<open>src/README.md\<close>). It reads the quantity from the query string,
  \<^verbatim>\<open>parseInt(req.query.quantity) || 1\<close> (\<open>None\<close> stands for \<^verbatim>\<open>NaN\<close>; \<^verbatim>\<open>NaN\<close> and 0 are
  falsy), guards the \<^verbatim>\<open>UPDATE\<close> by \<^verbatim>\<open>quantity >= ?\<close>, and answers 400 when no row changed.
\<close>

fun parsed_quantity :: "int option \<Rightarrow> int" where
  "parsed_quantity None = 1"
| "parsed_quantity (Some q) = (if q = 0 then 1 else q)"

definition decrement_quantity_revised ::
  "('k \<rightharpoonup> int) \<Rightarrow> 'k \<Rightarrow> int \<Rightarrow> ('k \<rightharpoonup> int) \<times> nat" where
  "decrement_quantity_revised t k q =
     (case t k of
        None \<Rightarrow> (t, 0)
      | Some n \<Rightarrow> if n \<ge> q then (t(k \<mapsto> n - q), 1) else (t, 0))"

definition delete_inventory_revised ::
  "database \<Rightarrow> credential \<Rightarrow> string \<Rightarrow> int option \<Rightarrow> outcome" where
  "delete_inventory_revised db cred itemKey query_quantity =
     authenticated db cred (\<lambda>user.
       let quantity = parsed_quantity query_quantity;
           (inv1, changes) =
             decrement_quantity_revised (user_inventory db) (userId user, itemKey) quantity
       in if changes > 0
          then respond
                 (db\<lparr>user_inventory := delete_nonpositive inv1 (userId user, itemKey)\<rparr>)
                 200 (MessageBody ''Item removed from inventory'') []
          else respond (db\<lparr>user_inventory := inv1\<rparr>) 400
                 (ErrorBody ''Nothing to remove or not enough quantity'') [])"

text \<open>\<^verbatim>\<open>POST /api/party-storage\<close>: the spec's \<open>addToStorage\<close>.\<close>

definition post_party_storage ::
  "database \<Rightarrow> credential \<Rightarrow> string option \<Rightarrow> int option \<Rightarrow> outcome" where
  "post_party_storage db cred itemKey_field quantity_field =
     authenticated db cred (\<lambda>user.
       let quantity = default_quantity quantity_field
       in case itemKey_field of
            None \<Rightarrow> respond db 400 (ErrorBody ''Item key required'') []
          | Some itemKey \<Rightarrow>
              if itemKey = [] then respond db 400 (ErrorBody ''Item key required'') []
              else respond
                     (db\<lparr>party_storage := upsert_quantity (party_storage db) itemKey quantity\<rparr>)
                     200 (MessageBody ''Item added to party storage'')
                     [PARTY_STORAGE_UPDATED])"

text \<open>\<^verbatim>\<open>DELETE /api/party-storage/:itemKey\<close>: the spec's \<open>removeFromStorage\<close>.\<close>

definition delete_party_storage ::
  "database \<Rightarrow> credential \<Rightarrow> string \<Rightarrow> int option \<Rightarrow> outcome" where
  "delete_party_storage db cred itemKey quantity_field =
     authenticated db cred (\<lambda>user.
       let quantity = default_quantity quantity_field;
           (ps1, changes) = decrement_quantity (party_storage db) itemKey quantity;
           ps2 = (if changes > 0 then delete_nonpositive ps1 itemKey else ps1)
       in respond (db\<lparr>party_storage := ps2\<rparr>) 200
            (MessageBody ''Item removed from party storage'') [PARTY_STORAGE_UPDATED])"

text \<open>\<^verbatim>\<open>POST /api/quests\<close> (admin only).\<close>

definition post_quests ::
  "database \<Rightarrow> credential \<Rightarrow> string option \<Rightarrow> string option \<Rightarrow> string option \<Rightarrow> outcome" where
  "post_quests db cred name_field description_field imageUrl =
     admin_only db cred (\<lambda>user.
       case (name_field, description_field) of
         (Some name, Some description) \<Rightarrow>
           if name = [] \<or> description = []
           then respond db 400 (ErrorBody ''Name and description required'') []
           else
             (let questKey = derive_key name;
                  image_url = or_default imageUrl ''/api/placeholder/400/200''
              in case insert_quest db questKey name description image_url of
                   Inl err \<Rightarrow>
                     if err = SQLITE_CONSTRAINT
                     then respond db 400 (ErrorBody ''Quest already exists'') []
                     else respond db 500 (ErrorBody ''Database error'') []
                 | Inr (db', lastID) \<Rightarrow>
                     respond db' 200
                       (QuestBody lastID questKey name description image_url True)
                       [QUEST_ADDED lastID questKey name description image_url True])
       | _ \<Rightarrow> respond db 400 (ErrorBody ''Name and description required'') [])"

text \<open>\<^verbatim>\<open>DELETE /api/quests/:questKey\<close> (admin only).\<close>

definition delete_quests :: "database \<Rightarrow> credential \<Rightarrow> string \<Rightarrow> outcome" where
  "delete_quests db cred questKey =
     admin_only db cred (\<lambda>user.
       let (quests', changes) = delete_row (quests db) questKey;
           db1 = db\<lparr>quests := quests'\<rparr>
       in if changes = 0 then respond db1 404 (ErrorBody ''Quest not found'') []
          else respond db1 200 (MessageBody ''Quest deleted successfully'')
                 [QUEST_DELETED questKey])"

section \<open>Sequences of requests\<close>

text \<open>
  The mutating routes as one request type. The \<^verbatim>\<open>GET\<close> routes only read and are not
  listed.
\<close>

datatype request =
    PostAuthLogin "string option" "string option"
  | PostItems credential "string option" "string option" "string option"
  | DeleteItems credential string
  | PostInventory credential "string option" "int option"
  | DeleteInventory credential string "int option"
  | PostPartyStorage credential "string option" "int option"
  | DeletePartyStorage credential string "int option"
  | PostQuests credential "string option" "string option" "string option"
  | DeleteQuests credential string

fun handle ::
  "(string \<Rightarrow> string) \<Rightarrow> (string \<Rightarrow> string \<Rightarrow> bool) \<Rightarrow> database \<Rightarrow> request \<Rightarrow> outcome" where
  "handle h c db (PostAuthLogin n p) = post_auth_login h c db n p"
| "handle h c db (PostItems cred n d i) = post_items db cred n d i"
| "handle h c db (DeleteItems cred k) = delete_items db cred k"
| "handle h c db (PostInventory cred k q) = post_inventory db cred k q"
| "handle h c db (DeleteInventory cred k q) = delete_inventory db cred k q"
| "handle h c db (PostPartyStorage cred k q) = post_party_storage db cred k q"
| "handle h c db (DeletePartyStorage cred k q) = delete_party_storage db cred k q"
| "handle h c db (PostQuests cred n d i) = post_quests db cred n d i"
| "handle h c db (DeleteQuests cred k) = delete_quests db cred k"



section \<open>Properties of the stored quantities\<close>




section \<open>Example data\<close>

text \<open>
  A player and the game master as verified tokens, and a database whose only rows are a
  line of \<open>n\<close> stimpaks in the player's inventory and in the party storage.
\<close>

definition dweller :: credential where
  "dweller = ValidToken \<lparr>userId = 2, username = ''dweller'', isAdmin = False\<rparr>"

definition overseer :: credential where
  "overseer = ValidToken \<lparr>userId = 1, username = ''gm'', isAdmin = True\<rparr>"


text \<open>
  A small database: the game master's account, two catalog items, inventory lines of two
  players, two storage lines and a quest.
\<close>

definition camp :: database where
  "camp =
     empty_database
       \<lparr>users := [''gm'' \<mapsto> \<lparr>user_id = 1, password_hash = ''$2b$10$'', is_admin = True\<rparr>],
        users_seq := 1,
        items := [''stimpak'' \<mapsto> \<lparr>item_id = 1, item_name = ''Stimpak'',
                     item_description = ''Heals wounds.'', item_image_url = ''/img/1''\<rparr>,
                  ''radaway'' \<mapsto> \<lparr>item_id = 2, item_name = ''RadAway'',
                     item_description = ''Reduces radiation.'', item_image_url = ''/img/2''\<rparr>],
        items_seq := 2,
        user_inventory := [(2, ''stimpak'') \<mapsto> 5, (3, ''stimpak'') \<mapsto> 1, (2, ''radaway'') \<mapsto> 4],
        party_storage := [''stimpak'' \<mapsto> 2, ''radaway'' \<mapsto> 7],
        quests := [''find-the-vault'' \<mapsto> \<lparr>quest_id = 1, quest_name = ''Find the Lost Vault'',
                     quest_description = ''Search the wasteland.'',
                     quest_image_url = ''/img/q1'', quest_is_active = True\<rparr>],
        quests_seq := 1\<rparr>"

section \<open>Basic facts\<close>

lemma respond_simps [simp]:
  "store (respond db st b evs) = db"
  "status (respond db st b evs) = st"
  "body (respond db st b evs) = b"
  "sent (respond db st b evs) = evs"
  by (simp_all add: respond_def)

lemma authenticated_valid [simp]:
  "authenticated db (ValidToken user) handler = handler user"
  by (simp add: authenticated_def)

lemma authenticated_cases:
  "authenticated db cred handler =
     (case cred of
        NoToken \<Rightarrow> respond db 401 (ErrorBody ''Access token required'') []
      | InvalidToken \<Rightarrow> respond db 403 (ErrorBody ''Invalid token'') []
      | ValidToken user \<Rightarrow> handler user)"
  by (cases cred) (simp_all add: authenticated_def)

lemma admin_only_valid [simp]:
  "isAdmin user \<Longrightarrow> admin_only db (ValidToken user) handler = handler user"
  by (simp add: admin_only_def requireAdmin_def)


lemma delete_inventory_store:
  "store (delete_inventory db (ValidToken user) itemKey qf) =
   db\<lparr>user_inventory :=
        (case user_inventory db (userId user, itemKey) of
           None \<Rightarrow> user_inventory db
         | Some n \<Rightarrow> if n > default_quantity qf
                    then (user_inventory db)((userId user, itemKey) \<mapsto> n - default_quantity qf)
                    else user_inventory db)\<rparr>"
  by (simp add: delete_inventory_def decrement_quantity_def delete_nonpositive_def Let_def split: option.splits)


lemma post_inventory_store:
  "itemKey \<noteq> [] \<Longrightarrow>
   store (post_inventory db (ValidToken user) (Some itemKey) qf) =
   db\<lparr>user_inventory := upsert_quantity (user_inventory db) (userId user, itemKey) (default_quantity qf)\<rparr>"
  by (simp add: post_inventory_def Let_def)




lemma delete_row_absent: "t k = None \<Longrightarrow> delete_row t k = (t, 0)"
  by (simp add: delete_row_def fun_eq_iff)

lemma delete_row_present: "t k = Some v \<Longrightarrow> delete_row t k = (t(k := None), 1)"
  by (simp add: delete_row_def)

lemma or_ignore_insert_item_other:
  "users (or_ignore db (insert_item db k n d i)) = users db"
  "user_inventory (or_ignore db (insert_item db k n d i)) = user_inventory db"
  "party_storage (or_ignore db (insert_item db k n d i)) = party_storage db"
  by (simp_all add: insert_item_def Let_def split: option.splits)

lemma fold_insert_item_other:
  "users (fold (\<lambda>(k, n, d, i) db. or_ignore db (insert_item db k n d i)) xs db) = users db \<and>
   user_inventory (fold (\<lambda>(k, n, d, i) db. or_ignore db (insert_item db k n d i)) xs db) = user_inventory db \<and>
   party_storage (fold (\<lambda>(k, n, d, i) db. or_ignore db (insert_item db k n d i)) xs db) = party_storage db"
  by (induction xs arbitrary: db) (auto simp: or_ignore_insert_item_other)

lemma initial_database_facts:
  "users (initial_database hs) ''gm'' = Some \<lparr>user_id = 1, password_hash = hs ''admin'', is_admin = True\<rparr>"
  "user_inventory (initial_database hs) = Map.empty"
  "party_storage (initial_database hs) = Map.empty"
  by (simp_all add: initial_database_def Let_def fold_insert_item_other insert_quest_def
        insert_user_def empty_database_def split: option.splits)


lemma admin_only_cases:
  "admin_only db cred handler =
     (case cred of
        NoToken \<Rightarrow> respond db 401 (ErrorBody ''Access token required'') []
      | InvalidToken \<Rightarrow> respond db 403 (ErrorBody ''Invalid token'') []
      | ValidToken user \<Rightarrow>
          if isAdmin user then handler user
          else respond db 403 (ErrorBody ''Admin privileges required'') [])"
  by (cases cred) (simp_all add: admin_only_def authenticated_def requireAdmin_def)
















section \<open>Adding to the inventory\<close>



section \<open>Removing from the inventory and the party storage\<close>

text \<open>
  Claim C1. The spec lets \<open>removeFromInventory\<close> succeed when the current quantity equals
  the requested one, and delete the line. The \<^verbatim>\<open>UPDATE\<close> asks for \<^verbatim>\<open>quantity > ?\<close>: after
  adding 2 stimpaks to an empty inventory, removing 2 changes nothing, the line stays at
  2, and the answer is 200.
\<close>

theorem remove_equal_quantity_keeps_line:
  "user_inventory (store (post_inventory empty_database dweller (Some ''stimpak'') (Some 2)))
     (2, ''stimpak'') = Some 2 \<and>
   user_inventory
     (store (delete_inventory
        (store (post_inventory empty_database dweller (Some ''stimpak'') (Some 2)))
        dweller ''stimpak'' (Some 2)))
     (2, ''stimpak'') = Some 2 \<and>
   status (delete_inventory
        (store (post_inventory empty_database dweller (Some ''stimpak'') (Some 2)))
        dweller ''stimpak'' (Some 2)) = 200"
  by (simp add: dweller_def delete_inventory_store post_inventory_store upsert_quantity_def
        empty_database_def)
     (simp add: delete_inventory_def split: prod.splits)

text \<open>
  The later revision of the route does both: for a positive quantity \<open>q\<close> and a line of
  quantity \<open>n\<close>, it answers 200 when \<open>q \<le> n\<close>, leaving \<open>n - q\<close> or, at equality, no line;
  it answers 400 and leaves the database as it is when \<open>n < q\<close> or the line is absent.
\<close>

lemma revised_remove_route:
  assumes "0 < q"
  shows "user_inventory db (userId user, k) = Some n \<Longrightarrow> q \<le> n \<Longrightarrow>
           status (delete_inventory_revised db (ValidToken user) k (Some q)) = 200 \<and>
           user_inventory (store (delete_inventory_revised db (ValidToken user) k (Some q)))
             (userId user, k) = (if n = q then None else Some (n - q))"
    and "user_inventory db (userId user, k) = Some n \<Longrightarrow> n < q \<Longrightarrow>
           status (delete_inventory_revised db (ValidToken user) k (Some q)) = 400 \<and>
           store (delete_inventory_revised db (ValidToken user) k (Some q)) = db"
    and "user_inventory db (userId user, k) = None \<Longrightarrow>
           status (delete_inventory_revised db (ValidToken user) k (Some q)) = 400 \<and>
           store (delete_inventory_revised db (ValidToken user) k (Some q)) = db"
  using assms
  by (simp_all add: delete_inventory_revised_def decrement_quantity_revised_def
        delete_nonpositive_def Let_def)

text \<open>
  Claim C2. The spec lets \<open>removeFromInventory\<close> fail with \<open>InsufficientQuantity\<close> when the
  line holds less than requested or is absent. The handler leaves the database as it is,
  and answers 200 with the message \<^verbatim>\<open>Item removed from inventory\<close>: removing one stimpak
  from an empty inventory.
\<close>

theorem remove_from_absent_line_answers_success:
  "user_inventory empty_database (2, ''stimpak'') = None \<and>
   status (delete_inventory empty_database dweller ''stimpak'' (Some 1)) = 200 \<and>
   body (delete_inventory empty_database dweller ''stimpak'' (Some 1)) =
     MessageBody ''Item removed from inventory'' \<and>
   store (delete_inventory empty_database dweller ''stimpak'' (Some 1)) = empty_database"
  by (simp add: dweller_def delete_inventory_store) (simp add: delete_inventory_def empty_database_def split: prod.splits)





section \<open>Deleting a catalog item\<close>

text \<open>
  Claim C5. For an admin caller, \<open>deleteItem k\<close> answers 404 \<^verbatim>\<open>Item not found\<close> and leaves
  the database as it is when no catalog item has key \<open>k\<close>; otherwise it answers 200, and
  afterwards the catalog has no item \<open>k\<close>, no account has an inventory line for \<open>k\<close> and
  the party storage has no line for \<open>k\<close>. Rows of every other key stay as they were.
\<close>

theorem delete_item_cascades:
  "isAdmin user \<Longrightarrow>
   (items db k = None \<longrightarrow>
      status (delete_items db (ValidToken user) k) = 404 \<and>
      body (delete_items db (ValidToken user) k) = ErrorBody ''Item not found'' \<and>
      store (delete_items db (ValidToken user) k) = db) \<and>
   (items db k \<noteq> None \<longrightarrow>
      status (delete_items db (ValidToken user) k) = 200 \<and>
      items (store (delete_items db (ValidToken user) k)) k = None \<and>
      (\<forall>u. user_inventory (store (delete_items db (ValidToken user) k)) (u, k) = None) \<and>
      party_storage (store (delete_items db (ValidToken user) k)) k = None \<and>
      (\<forall>k'. k' \<noteq> k \<longrightarrow>
         items (store (delete_items db (ValidToken user) k)) k' = items db k' \<and>
         party_storage (store (delete_items db (ValidToken user) k)) k' = party_storage db k' \<and>
         (\<forall>u. user_inventory (store (delete_items db (ValidToken user) k)) (u, k') =
              user_inventory db (u, k'))))"
  by (cases "items db k")
     (simp_all add: delete_items_def delete_row_absent delete_row_present Let_def
        delete_inventory_of_item_def delete_row_def[of "party_storage _"])

theorem delete_item_cascades_witness:
  "isAdmin \<lparr>userId = 1, username = ''gm'', isAdmin = True\<rparr> \<and>
   items camp ''nuka-grape'' = None \<and>
   status (delete_items camp overseer ''nuka-grape'') = 404 \<and>
   store (delete_items camp overseer ''nuka-grape'') = camp \<and>
   items camp ''stimpak'' \<noteq> None \<and>
   user_inventory camp (2, ''stimpak'') = Some 5 \<and>
   user_inventory camp (3, ''stimpak'') = Some 1 \<and>
   party_storage camp ''stimpak'' = Some 2 \<and>
   status (delete_items camp overseer ''stimpak'') = 200 \<and>
   items (store (delete_items camp overseer ''stimpak'')) ''stimpak'' = None \<and>
   user_inventory (store (delete_items camp overseer ''stimpak'')) (2, ''stimpak'') = None \<and>
   user_inventory (store (delete_items camp overseer ''stimpak'')) (3, ''stimpak'') = None \<and>
   party_storage (store (delete_items camp overseer ''stimpak'')) ''stimpak'' = None \<and>
   user_inventory (store (delete_items camp overseer ''stimpak'')) (2, ''radaway'') = Some 4"
proof -
  have absent: "items camp ''nuka-grape'' = None" and present: "items camp ''stimpak'' \<noteq> None"
    by (simp_all add: camp_def empty_database_def)
  have lines: "user_inventory camp (2, ''stimpak'') = Some 5"
    "user_inventory camp (3, ''stimpak'') = Some 1"
    "user_inventory camp (2, ''radaway'') = Some 4"
    "party_storage camp ''stimpak'' = Some 2"
    by (simp_all add: camp_def empty_database_def)
  show ?thesis
    using delete_item_cascades
            [of "\<lparr>userId = 1, username = ''gm'', isAdmin = True\<rparr>" camp "''nuka-grape''"]
          delete_item_cascades
            [of "\<lparr>userId = 1, username = ''gm'', isAdmin = True\<rparr>" camp "''stimpak''"]
          absent present lines
    by (simp add: overseer_def)
qed

section \<open>Quantities stay positive\<close>






section \<open>Quantity arguments\<close>




section \<open>Broadcasts\<close>

lemma post_items_sent:
  "status (post_items db cred n d i) = 200 \<Longrightarrow>
   map event_type (sent (post_items db cred n d i)) = [''ITEM_ADDED'']"
  by (auto simp: post_items_def admin_only_cases Let_def
      split: option.splits credential.splits if_splits sum.splits)

lemma delete_items_sent:
  "status (delete_items db cred k) = 200 \<Longrightarrow>
   map event_type (sent (delete_items db cred k)) = [''ITEM_DELETED'']"
  by (auto simp: delete_items_def admin_only_cases Let_def
      split: credential.splits if_splits prod.splits)

lemma post_quests_sent:
  "status (post_quests db cred n d i) = 200 \<Longrightarrow>
   map event_type (sent (post_quests db cred n d i)) = [''QUEST_ADDED'']"
  by (auto simp: post_quests_def admin_only_cases Let_def
      split: option.splits credential.splits if_splits sum.splits)

lemma delete_quests_sent:
  "status (delete_quests db cred k) = 200 \<Longrightarrow>
   map event_type (sent (delete_quests db cred k)) = [''QUEST_DELETED'']"
  by (auto simp: delete_quests_def admin_only_cases Let_def
      split: credential.splits if_splits prod.splits)

lemma post_party_storage_sent:
  "status (post_party_storage db cred kf q) = 200 \<Longrightarrow>
   map event_type (sent (post_party_storage db cred kf q)) = [''PARTY_STORAGE_UPDATED'']"
  by (auto simp: post_party_storage_def authenticated_cases Let_def
      split: option.splits credential.splits if_splits)

lemma delete_party_storage_sent:
  "status (delete_party_storage db cred k q) = 200 \<Longrightarrow>
   map event_type (sent (delete_party_storage db cred k q)) = [''PARTY_STORAGE_UPDATED'']"
  by (auto simp: delete_party_storage_def authenticated_cases Let_def
      split: credential.splits if_splits prod.splits)

lemma post_inventory_sent: "sent (post_inventory db cred kf q) = []"
  by (simp add: post_inventory_def authenticated_cases Let_def
      split: option.splits credential.splits)

lemma delete_inventory_sent: "sent (delete_inventory db cred k q) = []"
  by (simp add: delete_inventory_def authenticated_cases Let_def
      split: credential.splits prod.splits)

text \<open>
  Claim C6, as the code has it. Every create or delete of an item or a quest and every
  party-storage mutation that is answered with status 200 hands exactly one event to
  \<^verbatim>\<open>broadcast\<close>, of type \<^verbatim>\<open>ITEM_ADDED\<close>, \<^verbatim>\<open>ITEM_DELETED\<close>, \<^verbatim>\<open>QUEST_ADDED\<close>,
  \<^verbatim>\<open>QUEST_DELETED\<close> and, for the party storage, \<^verbatim>\<open>PARTY_STORAGE_UPDATED\<close>; an inventory add or
  remove broadcasts nothing, whatever its answer.
\<close>

theorem broadcast_contract:
  "(status (post_items db cred n d i) = 200 \<longrightarrow>
      map event_type (sent (post_items db cred n d i)) = [''ITEM_ADDED'']) \<and>
   (status (delete_items db cred k) = 200 \<longrightarrow>
      map event_type (sent (delete_items db cred k)) = [''ITEM_DELETED'']) \<and>
   (status (post_quests db cred n d i) = 200 \<longrightarrow>
      map event_type (sent (post_quests db cred n d i)) = [''QUEST_ADDED'']) \<and>
   (status (delete_quests db cred k) = 200 \<longrightarrow>
      map event_type (sent (delete_quests db cred k)) = [''QUEST_DELETED'']) \<and>
   (status (post_party_storage db cred kf q) = 200 \<longrightarrow>
      map event_type (sent (post_party_storage db cred kf q)) = [''PARTY_STORAGE_UPDATED'']) \<and>
   (status (delete_party_storage db cred k q) = 200 \<longrightarrow>
      map event_type (sent (delete_party_storage db cred k q)) = [''PARTY_STORAGE_UPDATED'']) \<and>
   sent (post_inventory db cred kf q) = [] \<and>
   sent (delete_inventory db cred k q) = []"
  by (simp add: post_items_sent delete_items_sent post_quests_sent delete_quests_sent
      post_party_storage_sent delete_party_storage_sent post_inventory_sent
      delete_inventory_sent)

theorem broadcast_contract_witness:
  "status (post_items empty_database overseer (Some ''Stimpak'') (Some ''Heals wounds.'') None) = 200 \<and>
   map event_type
     (sent (post_items empty_database overseer (Some ''Stimpak'') (Some ''Heals wounds.'') None)) =
     [''ITEM_ADDED''] \<and>
   status (post_quests empty_database overseer (Some ''Stimpak'') (Some ''Heals wounds.'') None) = 200 \<and>
   map event_type
     (sent (post_quests empty_database overseer (Some ''Stimpak'') (Some ''Heals wounds.'') None)) =
     [''QUEST_ADDED''] \<and>
   status (delete_items camp overseer ''stimpak'') = 200 \<and>
   map event_type (sent (delete_items camp overseer ''stimpak'')) = [''ITEM_DELETED''] \<and>
   status (delete_quests camp overseer ''find-the-vault'') = 200 \<and>
   map event_type (sent (delete_quests camp overseer ''find-the-vault'')) = [''QUEST_DELETED''] \<and>
   status (post_party_storage camp overseer (Some ''stimpak'') (Some 1)) = 200 \<and>
   map event_type (sent (post_party_storage camp overseer (Some ''stimpak'') (Some 1))) =
     [''PARTY_STORAGE_UPDATED''] \<and>
   status (delete_party_storage camp overseer ''stimpak'' (Some 1)) = 200 \<and>
   map event_type (sent (delete_party_storage camp overseer ''stimpak'' (Some 1))) =
     [''PARTY_STORAGE_UPDATED'']"
proof -
  have created:
    "status (post_items empty_database overseer (Some ''Stimpak'') (Some ''Heals wounds.'') None) = 200"
    "status (post_quests empty_database overseer (Some ''Stimpak'') (Some ''Heals wounds.'') None) = 200"
    by (simp_all add: overseer_def post_items_def post_quests_def insert_item_def
          insert_quest_def empty_database_def Let_def)
  have deleted:
    "status (delete_items camp overseer ''stimpak'') = 200"
    "status (delete_quests camp overseer ''find-the-vault'') = 200"
    by (simp_all add: overseer_def delete_items_def delete_quests_def delete_row_def camp_def
          empty_database_def Let_def)
  have stored:
    "status (post_party_storage camp overseer (Some ''stimpak'') (Some 1)) = 200"
    "status (delete_party_storage camp overseer ''stimpak'' (Some 1)) = 200"
    by (simp_all add: overseer_def post_party_storage_def delete_party_storage_def Let_def
          split: prod.splits)
  show ?thesis
    using broadcast_contract
            [of empty_database overseer "Some ''Stimpak''" "Some ''Heals wounds.''" None
                "''stimpak''" "Some ''stimpak''" "Some 1"]
          broadcast_contract
            [of camp overseer "Some ''Stimpak''" "Some ''Heals wounds.''" None
                "''stimpak''" "Some ''stimpak''" "Some 1"]
          broadcast_contract
            [of camp overseer "Some ''Stimpak''" "Some ''Heals wounds.''" None
                "''find-the-vault''" "Some ''stimpak''" "Some 1"]
          created deleted stored
    by simp
qed

text \<open>
  Claim C6 as the spec states it names the storage event \<^verbatim>\<open>STORAGE_UPDATED\<close>; the event a
  successful storage add emits has the type \<^verbatim>\<open>PARTY_STORAGE_UPDATED\<close>.
\<close>

theorem storage_event_type_differs:
  "status (post_party_storage empty_database dweller (Some ''stimpak'') (Some 1)) = 200 \<and>
   map event_type (sent (post_party_storage empty_database dweller (Some ''stimpak'') (Some 1))) =
     [''PARTY_STORAGE_UPDATED''] \<and>
   map event_type (sent (post_party_storage empty_database dweller (Some ''stimpak'') (Some 1))) \<noteq>
     [''STORAGE_UPDATED'']"
  by (simp add: dweller_def post_party_storage_def)

section \<open>Creating catalog items\<close>



section \<open>Accounts created by login\<close>

lemma post_auth_login_users:
  "users (store (post_auth_login h c db nf pf)) n = Some row \<Longrightarrow> is_admin row \<Longrightarrow>
   users db n = Some row"
  by (auto simp: post_auth_login_def insert_user_def Let_def
      split: option.splits if_splits)

lemma post_items_users: "users (store (post_items db cred nf d i)) = users db"
  by (simp add: post_items_def admin_only_cases insert_item_def Let_def
      split: option.splits credential.splits)

lemma delete_items_users: "users (store (delete_items db cred k)) = users db"
  by (simp add: delete_items_def admin_only_cases Let_def
      split: credential.splits prod.splits)

lemma post_inventory_users: "users (store (post_inventory db cred kf q)) = users db"
  by (simp add: post_inventory_def authenticated_cases Let_def
      split: option.splits credential.splits)

lemma delete_inventory_users: "users (store (delete_inventory db cred k q)) = users db"
  by (simp add: delete_inventory_def authenticated_cases Let_def
      split: credential.splits prod.splits)

lemma post_party_storage_users: "users (store (post_party_storage db cred kf q)) = users db"
  by (simp add: post_party_storage_def authenticated_cases Let_def
      split: option.splits credential.splits)

lemma delete_party_storage_users: "users (store (delete_party_storage db cred k q)) = users db"
  by (simp add: delete_party_storage_def authenticated_cases Let_def
      split: credential.splits prod.splits)

lemma post_quests_users: "users (store (post_quests db cred nf d i)) = users db"
  by (simp add: post_quests_def admin_only_cases insert_quest_def Let_def
      split: option.splits credential.splits)

lemma delete_quests_users: "users (store (delete_quests db cred k)) = users db"
  by (simp add: delete_quests_def admin_only_cases Let_def
      split: credential.splits prod.splits)

lemmas other_handlers_users =
  post_items_users delete_items_users post_inventory_users delete_inventory_users
  post_party_storage_users delete_party_storage_users post_quests_users delete_quests_users

lemma handle_users:
  "users (store (handle h c db r)) n = Some row \<Longrightarrow> is_admin row \<Longrightarrow> users db n = Some row"
proof (cases r)
  case (PostAuthLogin nf pf)
  assume "users (store (handle h c db r)) n = Some row" and "is_admin row"
  then show ?thesis
    unfolding PostAuthLogin handle.simps by (rule post_auth_login_users)
qed (simp_all add: other_handlers_users)

text \<open>
  Claim C10. A login with an unseen username (and non-empty username and password)
  answers 200, stores the account with \<^verbatim>\<open>is_admin\<close> false, and returns a token payload and a
  user object with \<^verbatim>\<open>isAdmin\<close> false. No request makes an account admin: an account that is
  admin after a request was the same admin row before it. The seeded account \<^verbatim>\<open>gm\<close> of the
  start-up database is admin.
\<close>

theorem new_account_is_not_admin:
  "(name \<noteq> [] \<and> password \<noteq> [] \<and> users db name = None \<longrightarrow>
      status (post_auth_login h c db (Some name) (Some password)) = 200 \<and>
      users (store (post_auth_login h c db (Some name) (Some password))) name =
        Some \<lparr>user_id = Suc (users_seq db), password_hash = h password, is_admin = False\<rparr> \<and>
      body (post_auth_login h c db (Some name) (Some password)) =
        LoginBody \<lparr>userId = Suc (users_seq db), username = name, isAdmin = False\<rparr>
          (Suc (users_seq db)) name False) \<and>
   (\<forall>r n row. users (store (handle h c db r)) n = Some row \<and> is_admin row \<longrightarrow>
        users db n = Some row) \<and>
   users (initial_database hs) ''gm'' =
     Some \<lparr>user_id = 1, password_hash = hs ''admin'', is_admin = True\<rparr>"
proof -
  have new: "status (post_auth_login h c db (Some name) (Some password)) = 200 \<and>
      users (store (post_auth_login h c db (Some name) (Some password))) name =
        Some \<lparr>user_id = Suc (users_seq db), password_hash = h password, is_admin = False\<rparr> \<and>
      body (post_auth_login h c db (Some name) (Some password)) =
        LoginBody \<lparr>userId = Suc (users_seq db), username = name, isAdmin = False\<rparr>
          (Suc (users_seq db)) name False"
    if "name \<noteq> []" "password \<noteq> []" "users db name = None"
    using that by (simp add: post_auth_login_def insert_user_def Let_def)
  have old: "\<forall>r n row. users (store (handle h c db r)) n = Some row \<and> is_admin row \<longrightarrow>
        users db n = Some row"
    using handle_users[of h c db] by (intro allI impI) (elim conjE)
  show ?thesis
    by (intro conjI impI old initial_database_facts(1)) (simp_all add: new)
qed

theorem new_account_is_not_admin_witness:
  "''dweller'' \<noteq> [] \<and> ''vault-111'' \<noteq> [] \<and> users camp ''dweller'' = None \<and>
   status (post_auth_login (\<lambda>p. p) (\<lambda>p h. p = h) camp (Some ''dweller'') (Some ''vault-111'')) = 200 \<and>
   body (post_auth_login (\<lambda>p. p) (\<lambda>p h. p = h) camp (Some ''dweller'') (Some ''vault-111'')) =
     LoginBody \<lparr>userId = 2, username = ''dweller'', isAdmin = False\<rparr> 2 ''dweller'' False \<and>
   users (store (post_auth_login (\<lambda>p. p) (\<lambda>p h. p = h) camp (Some ''dweller'') (Some ''vault-111'')))
     ''dweller'' = Some \<lparr>user_id = 2, password_hash = ''vault-111'', is_admin = False\<rparr>"
proof -
  have unseen: "users camp ''dweller'' = None" and seq: "users_seq camp = 1"
    by (simp_all add: camp_def empty_database_def)
  show ?thesis
    using new_account_is_not_admin
            [of "''dweller''" "''vault-111''" camp "\<lambda>p. p" "\<lambda>p h. p = h"]
          unseen seq
    by simp
qed


end
